theory Spec2Isabelle
  imports Main "HOL-Library.Sublist"
begin

section \<open>Python values\<close>

text \<open>
  The values \<^verbatim>\<open>json.loads\<close> produces: \<^verbatim>\<open>None\<close>, booleans, integers, strings,
  lists and dictionaries. A dictionary is an association list read with
  \<^const>\<open>map_of\<close>; Python's \<^verbatim>\<open>None\<close> and JSON's \<^verbatim>\<open>null\<close> are both \<open>JNull\<close>.
  Number literals with a fraction or an exponent become Python floats, whose
  arithmetic is not represented here: the token counts of an invocation log are
  integers.
\<close>

datatype json =
    JNull
  | JBool bool
  | JInt int
  | JStr string
  | JArr "json list"
  | JObj "(string \<times> json) list"

text \<open>
  The exceptions of the program, all of them subclasses of \<^verbatim>\<open>Exception\<close>.
  \<open>OtherError\<close> stands for any further fault of a library (a throttled or
  failed request, a missing region, a date that does not parse).
\<close>

datatype exn =
    KeyError
  | JSONDecodeError
  | AttributeError
  | TypeError
  | OverflowError
  | ResourceNotFoundException
  | ValidationError
  | OtherError string

definition bind_exn :: "exn + 'a \<Rightarrow> ('a \<Rightarrow> exn + 'b) \<Rightarrow> exn + 'b" where
  "bind_exn m f = (case m of Inl e \<Rightarrow> Inl e | Inr x \<Rightarrow> f x)"

text \<open>\<^verbatim>\<open>x.get(k, dflt)\<close>: only a dictionary has the method.\<close>

fun dict_get :: "json \<Rightarrow> string \<Rightarrow> json \<Rightarrow> exn + json" where
  "dict_get (JObj kvs) k dflt = Inr (case map_of kvs k of None \<Rightarrow> dflt | Some v \<Rightarrow> v)"
| "dict_get _ k dflt = Inl AttributeError"

text \<open>\<^verbatim>\<open>x[k]\<close> for a string key \<open>k\<close>.\<close>

fun getitem :: "json \<Rightarrow> string \<Rightarrow> exn + json" where
  "getitem (JObj kvs) k = (case map_of kvs k of None \<Rightarrow> Inl KeyError | Some v \<Rightarrow> Inr v)"
| "getitem _ k = Inl TypeError"

text \<open>The truth value Python gives a value in a condition.\<close>

fun truthy :: "json \<Rightarrow> bool" where
  "truthy JNull = False"
| "truthy (JBool b) = b"
| "truthy (JInt n) = (n \<noteq> 0)"
| "truthy (JStr s) = (s \<noteq> [])"
| "truthy (JArr xs) = (xs \<noteq> [])"
| "truthy (JObj kvs) = (kvs \<noteq> [])"

text \<open>
  The items a \<^verbatim>\<open>for\<close> loop draws from a value: the elements of a list, the keys
  of a dictionary, the characters of a string; anything else is not iterable.
\<close>

fun py_iter :: "json \<Rightarrow> exn + json list" where
  "py_iter (JArr xs) = Inr xs"
| "py_iter (JObj kvs) = Inr (map (\<lambda>kv. JStr (fst kv)) kvs)"
| "py_iter (JStr s) = Inr (map (\<lambda>c. JStr [c]) s)"
| "py_iter _ = Inl TypeError"

fun as_int :: "json \<Rightarrow> int option" where
  "as_int (JInt n) = Some n"
| "as_int (JBool b) = Some (if b then 1 else 0)"
| "as_int _ = None"

text \<open>
  \<^verbatim>\<open>a + b\<close>: integers (and booleans, which are integers) add, strings and lists
  concatenate, every other pair of operands raises \<^verbatim>\<open>TypeError\<close>.
\<close>

definition py_add :: "json \<Rightarrow> json \<Rightarrow> exn + json" where
  "py_add a b =
     (case (as_int a, as_int b) of
        (Some x, Some y) \<Rightarrow> Inr (JInt (x + y))
      | _ \<Rightarrow>
        (case (a, b) of
           (JStr s, JStr t) \<Rightarrow> Inr (JStr (s @ t))
         | (JArr xs, JArr ys) \<Rightarrow> Inr (JArr (xs @ ys))
         | _ \<Rightarrow> Inl TypeError))"

text \<open>A loop whose body may raise: the first exception ends it.\<close>

fun for_each :: "('s \<Rightarrow> 'a \<Rightarrow> exn + 's) \<Rightarrow> 's \<Rightarrow> 'a list \<Rightarrow> exn + 's" where
  "for_each body s [] = Inr s"
| "for_each body s (x # xs) =
     (case body s x of Inl e \<Rightarrow> Inl e | Inr s' \<Rightarrow> for_each body s' xs)"

text \<open>
  \<^verbatim>\<open>str.strip()\<close>, on the ASCII characters Python counts as white space
  (codes 9 to 13 and 28 to 32).
\<close>

definition is_space :: "char \<Rightarrow> bool" where
  "is_space c = (let n = (of_char c :: nat) in (9 \<le> n \<and> n \<le> 13) \<or> (28 \<le> n \<and> n \<le> 32))"

definition strip :: "string \<Rightarrow> string" where
  "strip s = rev (dropWhile is_space (rev (dropWhile is_space s)))"

section \<open>The extraction of one event\<close>

text \<open>
  An event of a page, as far as the program reads it: the \<^verbatim>\<open>message\<close> key and its
  string, \<open>None\<close> when the key is missing.
\<close>

record event =
  message :: "string option"

record usage_record =
  timestamp :: json
  region :: json
  modelId :: json
  userId :: json
  inputTokens :: json
  completionTokens :: json
  totalTokens :: json

text \<open>
  The body of \<^verbatim>\<open>for content in msg["content"]\<close> (lines 68 to 70), with the prompt
  built so far. \<^verbatim>\<open>content["text"] + " "\<close> needs a string on the left.
\<close>

definition add_content_text :: "string \<Rightarrow> json \<Rightarrow> exn + string" where
  "add_content_text prompt content =
     bind_exn (dict_get content ''text'' JNull) (\<lambda>t.
       if truthy t then
         bind_exn (getitem content ''text'') (\<lambda>t'.
           case t' of JStr s \<Rightarrow> Inr (prompt @ s @ '' '') | _ \<Rightarrow> Inl TypeError)
       else Inr prompt)"

text \<open>The body of \<^verbatim>\<open>for msg in ...["messages"]\<close> (lines 66 to 70).\<close>

definition add_message_text :: "string \<Rightarrow> json \<Rightarrow> exn + string" where
  "add_message_text prompt msg =
     bind_exn (dict_get msg ''role'' JNull) (\<lambda>role.
       if role = JStr ''user'' then
         bind_exn (dict_get msg ''content'' JNull) (\<lambda>c.
           if truthy c then
             bind_exn (getitem msg ''content'') (\<lambda>cs.
             bind_exn (py_iter cs) (\<lambda>items.
               for_each add_content_text prompt items))
           else Inr prompt)
       else Inr prompt)"

text \<open>Lines 60 to 71: the user prompt of an envelope.\<close>

definition user_prompt :: "json \<Rightarrow> exn + string" where
  "user_prompt msg =
     bind_exn (dict_get msg ''input'' (JObj [])) (\<lambda>i.
     bind_exn (dict_get i ''inputBodyJson'' (JObj [])) (\<lambda>b.
     bind_exn (dict_get b ''messages'' JNull) (\<lambda>ms.
       if truthy ms then
         bind_exn (getitem msg ''input'') (\<lambda>i'.
         bind_exn (getitem i' ''inputBodyJson'') (\<lambda>b'.
         bind_exn (getitem b' ''messages'') (\<lambda>ms'.
         bind_exn (py_iter ms') (\<lambda>msgs.
         bind_exn (for_each add_message_text [] msgs) (\<lambda>prompt.
           Inr (strip prompt))))))
       else Inr [])))"

text \<open>Lines 74 to 87: the dictionary literal, its entries evaluated in order.\<close>

definition filtered_event :: "json \<Rightarrow> exn + usage_record" where
  "filtered_event msg =
     bind_exn (dict_get msg ''timestamp'' JNull) (\<lambda>ts.
     bind_exn (dict_get msg ''region'' JNull) (\<lambda>rg.
     bind_exn (dict_get msg ''modelId'' JNull) (\<lambda>mid.
     bind_exn (dict_get msg ''identity'' (JObj [])) (\<lambda>idn.
     bind_exn (dict_get idn ''arn'' JNull) (\<lambda>arn.
     bind_exn (dict_get msg ''input'' (JObj [])) (\<lambda>i1.
     bind_exn (dict_get i1 ''inputTokenCount'' JNull) (\<lambda>itc.
     bind_exn (dict_get msg ''output'' (JObj [])) (\<lambda>o1.
     bind_exn (dict_get o1 ''outputTokenCount'' JNull) (\<lambda>otc.
     bind_exn (dict_get msg ''input'' (JObj [])) (\<lambda>i2.
     bind_exn (dict_get i2 ''inputTokenCount'' (JInt 0)) (\<lambda>a.
     bind_exn (dict_get msg ''output'' (JObj [])) (\<lambda>o2.
     bind_exn (dict_get o2 ''outputTokenCount'' (JInt 0)) (\<lambda>b.
     bind_exn (py_add a b) (\<lambda>total.
       Inr \<lparr>timestamp = ts, region = rg, modelId = mid, userId = arn,
            inputTokens = itc, completionTokens = otc,
            totalTokens = total\<rparr>))))))))))))))"

text \<open>
  Lines 56 to 89, the body of the inner \<^verbatim>\<open>try\<close>: \<^verbatim>\<open>event["message"]\<close>, the
  decoder \<open>loads\<close> (\<^verbatim>\<open>json.loads\<close>, a parameter), the prompt, which is built and
  not used, and the record.
\<close>

definition event_body :: "(string \<Rightarrow> exn + json) \<Rightarrow> event \<Rightarrow> exn + usage_record" where
  "event_body loads ev =
     bind_exn (case message ev of None \<Rightarrow> Inl KeyError | Some s \<Rightarrow> Inr s) (\<lambda>s.
     bind_exn (loads s) (\<lambda>msg.
     bind_exn (user_prompt msg) (\<lambda>prompt.
       filtered_event msg)))"

section \<open>The log source and the loop over its pages\<close>

text \<open>
  A page of \<^verbatim>\<open>filter_log_events\<close>: the \<^verbatim>\<open>events\<close> key and its list, \<open>None\<close>
  when the key is missing. The paginator yields pages one at a time and may
  raise after any number of them; a fault of \<^verbatim>\<open>get_paginator\<close> or of the first
  request is \<open>Broken\<close> before any page.
\<close>

record page =
  events :: "event list option"

datatype page_iterator =
    Exhausted
  | NextPage page page_iterator
  | Broken exn

text \<open>\<^verbatim>\<open>page.get("events", [])\<close>.\<close>

definition page_events :: "page \<Rightarrow> event list" where
  "page_events p = (case events p of None \<Rightarrow> [] | Some evs \<Rightarrow> evs)"

text \<open>
  Lines 54 to 93: the loop over the events of a page, \<open>logs\<close> being
  \<^verbatim>\<open>filtered_logs\<close>. The two inner handlers go on with the next event; any other
  exception leaves the loop.
\<close>

fun process_events ::
  "(string \<Rightarrow> exn + json) \<Rightarrow> event list \<Rightarrow> usage_record list \<Rightarrow> exn + usage_record list"
where
  "process_events loads [] logs = Inr logs"
| "process_events loads (ev # evs) logs =
     (case event_body loads ev of
        Inr r \<Rightarrow> process_events loads evs (logs @ [r])
      | Inl e \<Rightarrow>
          if e = JSONDecodeError then process_events loads evs logs
          else if e = KeyError then process_events loads evs logs
          else Inl e)"

text \<open>Lines 53 to 95: the loop over the pages, and \<^verbatim>\<open>return filtered_logs\<close>.\<close>

fun process_pages ::
  "(string \<Rightarrow> exn + json) \<Rightarrow> page_iterator \<Rightarrow> usage_record list \<Rightarrow> exn + usage_record list"
where
  "process_pages loads Exhausted logs = Inr logs"
| "process_pages loads (Broken e) logs = Inl e"
| "process_pages loads (NextPage p rest) logs =
     (case process_events loads (page_events p) logs of
        Inl e \<Rightarrow> Inl e
      | Inr logs' \<Rightarrow> process_pages loads rest logs')"

section \<open>The time window\<close>

text \<open>
  A naive \<^verbatim>\<open>datetime\<close>: the proleptic Gregorian ordinal of its date (1 is
  0001-01-01, 3652059 is 9999-12-31) and the microsecond within the day.
\<close>

record datetime =
  ordinal :: int
  microsecond_of_day :: int

text \<open>\<^verbatim>\<open>timedelta(days=d)\<close>: at most 999999999 days either way.\<close>

definition timedelta :: "int \<Rightarrow> exn + int" where
  "timedelta d = (if - 999999999 \<le> d \<and> d \<le> 999999999 then Inr d else Inl OverflowError)"

text \<open>\<^verbatim>\<open>dt - delta\<close> for a delta of whole days: the date must stay within the years 1 to 9999.\<close>

definition datetime_sub :: "datetime \<Rightarrow> int \<Rightarrow> exn + datetime" where
  "datetime_sub dt delta =
     (let ord' = ordinal dt - delta in
      if 1 \<le> ord' \<and> ord' \<le> 3652059 then Inr (dt\<lparr>ordinal := ord'\<rparr>)
      else Inl OverflowError)"

section \<open>The world outside the program\<close>

record query =
  logGroupName :: string
  logStreamNames :: "string list"
  startTime :: int
  endTime :: int

text \<open>
  What the program reads from outside: whether \<^verbatim>\<open>boto3.client("logs")\<close> raises,
  the clock, the host's \<^verbatim>\<open>int(dt.timestamp() * 1000)\<close> (local time rules and float
  arithmetic, which may raise at far dates), the pages the log source answers a
  query with, and \<^verbatim>\<open>json.loads\<close>.
\<close>

record world =
  boto3_client :: "exn option"
  now :: datetime
  epoch_ms :: "datetime \<Rightarrow> exn + int"
  paginate :: "query \<Rightarrow> page_iterator"
  loads :: "string \<Rightarrow> exn + json"

text \<open>Lines 30 to 35.\<close>

definition time_window :: "world \<Rightarrow> int \<Rightarrow> exn + (int \<times> int)" where
  "time_window w days_back =
     (let end_time = now w in
      bind_exn (timedelta days_back) (\<lambda>delta.
      bind_exn (datetime_sub end_time delta) (\<lambda>start_time.
      bind_exn (epoch_ms w start_time) (\<lambda>start_time_ms.
      bind_exn (epoch_ms w end_time) (\<lambda>end_time_ms.
        Inr (start_time_ms, end_time_ms))))))"

text \<open>Lines 43 to 50.\<close>

definition params :: "int \<Rightarrow> int \<Rightarrow> query" where
  "params start_time_ms end_time_ms =
     \<lparr>logGroupName = ''/aws/bedrock'',
      logStreamNames = [''aws/bedrock/modelinvocations''],
      startTime = start_time_ms,
      endTime = end_time_ms\<rparr>"

text \<open>The two \<^verbatim>\<open>print\<close> calls of the outer handlers.\<close>

datatype diagnostic =
    LogGroupNotFound
  | ErrorRetrievingLogs exn

text \<open>
  What a call of \<^verbatim>\<open>get_bedrock_logs\<close> does: it returns a list or lets an exception
  through (\<open>Inl\<close>), it prints, and it queries the log source.
\<close>

record fetch_result =
  returned :: "exn + usage_record list"
  printed :: "diagnostic list"
  queried :: "query list"

definition get_bedrock_logs :: "world \<Rightarrow> int \<Rightarrow> fetch_result" where
  "get_bedrock_logs w days_back =
     (case boto3_client w of
        Some e \<Rightarrow> \<lparr>returned = Inl e, printed = [], queried = []\<rparr>
      | None \<Rightarrow>
        (case time_window w days_back of
           Inl e \<Rightarrow> \<lparr>returned = Inl e, printed = [], queried = []\<rparr>
         | Inr (start_time_ms, end_time_ms) \<Rightarrow>
           (let q = params start_time_ms end_time_ms in
            case process_pages (loads w) (paginate w q) [] of
              Inr filtered_logs \<Rightarrow>
                \<lparr>returned = Inr filtered_logs, printed = [], queried = [q]\<rparr>
            | Inl e \<Rightarrow>
                if e = ResourceNotFoundException
                then \<lparr>returned = Inr [], printed = [LogGroupNotFound], queried = [q]\<rparr>
                else \<lparr>returned = Inr [], printed = [ErrorRetrievingLogs e], queried = [q]\<rparr>)))"

section \<open>The tool interface\<close>

text \<open>
  The \<^verbatim>\<open>days\<close> argument of a call as the interface receives it: left out, an
  integer, or a value \<open>v\<close> of another kind (a string, a float, a boolean,
  \<^verbatim>\<open>None\<close>, ...). \<open>DaysParam\<close> is the validation of the model class: the field
  has the default 7 and the type \<^verbatim>\<open>int\<close>, and neither a bound nor strict mode.
  An integer is taken as it is. What becomes of any other value is decided by
  the library's validation of an \<^verbatim>\<open>int\<close> field, the parameter \<open>lax\<close>: it either
  converts the value to an integer (\<^verbatim>\<open>"7"\<close>, \<^verbatim>\<open>7.0\<close> and \<^verbatim>\<open>True\<close> are converted)
  or refuses it.
\<close>

datatype 'v days_arg =
    DaysOmitted
  | DaysInt int
  | DaysOther 'v

definition DaysParam :: "('v \<Rightarrow> int option) \<Rightarrow> 'v days_arg \<Rightarrow> exn + int" where
  "DaysParam lax a =
     (case a of
        DaysOmitted \<Rightarrow> Inr 7
      | DaysInt n \<Rightarrow> Inr n
      | DaysOther v \<Rightarrow>
          (case lax v of None \<Rightarrow> Inl ValidationError | Some n \<Rightarrow> Inr n))"

text \<open>
  The data frame of the logs: its rows, and the \<^verbatim>\<open>timestamp\<close> column once
  \<^verbatim>\<open>pd.to_datetime\<close> has converted it. Every row has the seven columns, so the
  frame is empty exactly when it has no row.
\<close>

record 't log_frame =
  rows :: "usage_record list"
  times :: "'t list option"

definition frame_empty :: "'t log_frame \<Rightarrow> bool" where
  "frame_empty df = (rows df = [])"

text \<open>
  What the program asks of pandas: the functions named in the dictionary given
  to \<^verbatim>\<open>agg\<close> (\<open>AggListOfSet\<close> is \<^verbatim>\<open>lambda x: list(set(x))\<close>) and the key given to
  \<^verbatim>\<open>groupby\<close>. The library itself is a parameter: \<open>to_datetime\<close>, and
  \<open>groupby_agg_round\<close> for \<^verbatim>\<open>df.groupby(key).agg(spec).round(digits)\<close>.
\<close>

datatype aggfunc =
    AggCount
  | AggSum
  | AggMean
  | AggListOfSet

datatype grouping =
    ByColumn string
  | ByTimestampDate

record ('t, 's) pandas =
  to_datetime :: "json list \<Rightarrow> exn + 't list"
  groupby_agg_round ::
    "grouping \<Rightarrow> (string \<times> aggfunc list) list \<Rightarrow> nat \<Rightarrow> 't log_frame \<Rightarrow> exn + 's"

datatype 's summary =
    EmptyDataFrame
  | Aggregated 's

text \<open>What a tool does: its answer, and the calls of \<^verbatim>\<open>get_bedrock_logs\<close> it made.\<close>

record 'a tool_result =
  answer :: "exn + 'a"
  fetches :: "fetch_result list"

text \<open>Lines 136 to 143.\<close>

definition get_bedrock_logs_df ::
  "world \<Rightarrow> ('t, 's) pandas \<Rightarrow> int \<Rightarrow> 't log_frame tool_result"
where
  "get_bedrock_logs_df w pd days =
     (let r = get_bedrock_logs w days in
      \<lparr>answer =
         (case returned r of
            Inl e \<Rightarrow> Inl e
          | Inr logs \<Rightarrow>
            (let df = \<lparr>rows = logs, times = None\<rparr> in
             if \<not> frame_empty df then
               (case to_datetime pd (map timestamp (rows df)) of
                  Inl e \<Rightarrow> Inl e
                | Inr ts \<Rightarrow> Inr (df\<lparr>times := Some ts\<rparr>))
             else Inr df)),
       fetches = [r]\<rparr>)"

text \<open>
  The shape the three statistics tools share (lines 157 to 172, 186 to 202 and
  216 to 232): the frame of the logs, the test for emptiness, the grouping.
\<close>

definition usage_stats ::
  "grouping \<Rightarrow> (string \<times> aggfunc list) list \<Rightarrow>
   world \<Rightarrow> ('t, 's) pandas \<Rightarrow> int \<Rightarrow> 's summary tool_result"
where
  "usage_stats key spec w pd days =
     (let t = get_bedrock_logs_df w pd days in
      \<lparr>answer =
         (case answer t of
            Inl e \<Rightarrow> Inl e
          | Inr df \<Rightarrow>
            if frame_empty df then Inr EmptyDataFrame
            else
              (case groupby_agg_round pd key spec 2 df of
                 Inl e \<Rightarrow> Inl e
               | Inr table \<Rightarrow> Inr (Aggregated table))),
       fetches = fetches t\<rparr>)"

definition get_model_usage_stats ::
  "world \<Rightarrow> ('t, 's) pandas \<Rightarrow> int \<Rightarrow> 's summary tool_result"
where
  "get_model_usage_stats =
     usage_stats (ByColumn ''modelId'')
       [(''inputTokens'', [AggCount, AggSum, AggMean]),
        (''completionTokens'', [AggSum, AggMean]),
        (''totalTokens'', [AggSum, AggMean])]"

definition get_user_usage_stats ::
  "world \<Rightarrow> ('t, 's) pandas \<Rightarrow> int \<Rightarrow> 's summary tool_result"
where
  "get_user_usage_stats =
     usage_stats (ByColumn ''userId'')
       [(''inputTokens'', [AggCount, AggSum, AggMean]),
        (''completionTokens'', [AggSum, AggMean]),
        (''totalTokens'', [AggSum, AggMean]),
        (''modelId'', [AggListOfSet])]"

definition get_daily_usage_stats ::
  "world \<Rightarrow> ('t, 's) pandas \<Rightarrow> int \<Rightarrow> 's summary tool_result"
where
  "get_daily_usage_stats =
     usage_stats ByTimestampDate
       [(''inputTokens'', [AggCount, AggSum, AggMean]),
        (''completionTokens'', [AggSum, AggMean]),
        (''totalTokens'', [AggSum, AggMean]),
        (''modelId'', [AggListOfSet])]"

text \<open>
  A call through the interface: the argument is validated into a \<open>DaysParam\<close>,
  and only then the tool's function runs.
\<close>

datatype tool =
    GetBedrockLogsDf
  | GetModelUsageStats
  | GetUserUsageStats
  | GetDailyUsageStats

datatype ('t, 's) tool_value =
    Logs "'t log_frame"
  | Stats "'s summary"

definition tagged :: "('a \<Rightarrow> 'b) \<Rightarrow> 'a tool_result \<Rightarrow> 'b tool_result" where
  "tagged f t =
     \<lparr>answer = (case answer t of Inl e \<Rightarrow> Inl e | Inr v \<Rightarrow> Inr (f v)),
      fetches = fetches t\<rparr>"

definition call_tool ::
  "world \<Rightarrow> ('t, 's) pandas \<Rightarrow> ('v \<Rightarrow> int option) \<Rightarrow> tool \<Rightarrow> 'v days_arg \<Rightarrow>
   ('t, 's) tool_value tool_result"
where
  "call_tool w pd lax which arg =
     (case DaysParam lax arg of
        Inl e \<Rightarrow> \<lparr>answer = Inl e, fetches = []\<rparr>
      | Inr days \<Rightarrow>
        (case which of
           GetBedrockLogsDf \<Rightarrow> tagged Logs (get_bedrock_logs_df w pd days)
         | GetModelUsageStats \<Rightarrow> tagged Stats (get_model_usage_stats w pd days)
         | GetUserUsageStats \<Rightarrow> tagged Stats (get_user_usage_stats w pd days)
         | GetDailyUsageStats \<Rightarrow> tagged Stats (get_daily_usage_stats w pd days)))"

section \<open>Vocabulary of the properties\<close>

text \<open>
  The value of the field \<open>inner\<close> of the dictionary under \<open>outer\<close> in an
  envelope, \<open>None\<close> when either key is absent.
\<close>

definition nested_field :: "json \<Rightarrow> string \<Rightarrow> string \<Rightarrow> json option" where
  "nested_field msg outer inner =
     (case msg of
        JObj kvs \<Rightarrow>
          (case map_of kvs outer of
             Some (JObj kvs') \<Rightarrow> map_of kvs' inner
           | _ \<Rightarrow> None)
      | _ \<Rightarrow> None)"

text \<open>An operand of the total: 0 in place of an absent field.\<close>

definition or_zero :: "json option \<Rightarrow> json" where
  "or_zero v = (case v of None \<Rightarrow> JInt 0 | Some x \<Rightarrow> x)"

text \<open>All events the iterator yields before it ends or breaks, in page order.\<close>

fun all_events :: "page_iterator \<Rightarrow> event list" where
  "all_events Exhausted = []"
| "all_events (Broken e) = []"
| "all_events (NextPage p rest) = page_events p @ all_events rest"

text \<open>Whether the iterator raises instead of ending.\<close>

fun breaks :: "page_iterator \<Rightarrow> bool" where
  "breaks Exhausted = False"
| "breaks (Broken e) = True"
| "breaks (NextPage p rest) = breaks rest"

text \<open>The pages \<open>ps\<close>, then the iterator \<open>it\<close>.\<close>

fun pages_then :: "page list \<Rightarrow> page_iterator \<Rightarrow> page_iterator" where
  "pages_then [] it = it"
| "pages_then (p # ps) it = NextPage p (pages_then ps it)"

text \<open>
  Whether an event raises, in the body of the inner \<^verbatim>\<open>try\<close>, an exception that
  neither inner handler catches.
\<close>

definition aborts :: "(string \<Rightarrow> exn + json) \<Rightarrow> event \<Rightarrow> bool" where
  "aborts ld ev =
     (case event_body ld ev of
        Inr r \<Rightarrow> False
      | Inl e \<Rightarrow> e \<noteq> JSONDecodeError \<and> e \<noteq> KeyError)"

text \<open>Whether an event is one the inner handlers skip.\<close>

definition skipped :: "(string \<Rightarrow> exn + json) \<Rightarrow> event \<Rightarrow> bool" where
  "skipped ld ev =
     (event_body ld ev = Inl JSONDecodeError \<or> event_body ld ev = Inl KeyError)"

section \<open>Sample inputs\<close>

text \<open>
  Concrete inputs at which the theorems below are evaluated: five message
  bodies, a decoder that knows them (every other string is refused as
  \<^verbatim>\<open>json.loads\<close> refuses \<^verbatim>\<open>not json\<close>), a host in UTC and a host in Berlin on a
  day of 2024, and log sources that answer with fixed pages.
\<close>

definition body_m1_10_5 :: string where
  \<open>body_m1_10_5 =
     ''{"modelId": "m1", "input": {"inputTokenCount": 10}, "output": {"outputTokenCount": 5}}''\<close>

definition body_m1_20_0 :: string where
  \<open>body_m1_20_0 =
     ''{"modelId": "m1", "input": {"inputTokenCount": 20}, "output": {"outputTokenCount": 0}}''\<close>

definition envelope_m1 :: "int \<Rightarrow> int \<Rightarrow> json" where
  "envelope_m1 n k =
     JObj [(''modelId'', JStr ''m1''),
           (''input'', JObj [(''inputTokenCount'', JInt n)]),
           (''output'', JObj [(''outputTokenCount'', JInt k)])]"

text \<open>An invocation whose user message gives its content as a plain string.\<close>

definition body_string_content :: string where
  \<open>body_string_content =
     ''{"modelId": "m1", "input": {"inputBodyJson": {"messages": [{"role": "user", "content": "hi"}]}, "inputTokenCount": 3}, "output": {"outputTokenCount": 1}}''\<close>

definition envelope_string_content :: json where
  "envelope_string_content =
     JObj [(''modelId'', JStr ''m1''),
           (''input'',
              JObj [(''inputBodyJson'',
                       JObj [(''messages'',
                                JArr [JObj [(''role'', JStr ''user''),
                                            (''content'', JStr ''hi'')]])]),
                    (''inputTokenCount'', JInt 3)]),
           (''output'', JObj [(''outputTokenCount'', JInt 1)])]"

definition sample_loads :: "string \<Rightarrow> exn + json" where
  "sample_loads s =
     (if s = body_m1_10_5 then Inr (envelope_m1 10 5)
      else if s = body_m1_20_0 then Inr (envelope_m1 20 0)
      else if s = body_string_content then Inr envelope_string_content
      else if s = ''{}'' then Inr (JObj [])
      else if s = ''[]'' then Inr (JArr [])
      else Inl JSONDecodeError)"

definition event_of :: "string \<Rightarrow> event" where
  "event_of s = \<lparr>message = Some s\<rparr>"

definition page_of :: "event list \<Rightarrow> page" where
  "page_of evs = \<lparr>events = Some evs\<rparr>"


definition utc_epoch_ms :: "datetime \<Rightarrow> exn + int" where
  "utc_epoch_ms dt = Inr ((ordinal dt - 719163) * 86400000 + microsecond_of_day dt div 1000)"


definition sample_world :: "page_iterator \<Rightarrow> world" where
  "sample_world it =
     \<lparr>boto3_client = None,
      now = \<lparr>ordinal = 739000, microsecond_of_day = 0\<rparr>,
      epoch_ms = utc_epoch_ms,
      paginate = (\<lambda>q. it),
      loads = sample_loads\<rparr>"


text \<open>The scenario of the specification: a body that is not JSON between two valid ones.\<close>

definition scenario_pages :: page_iterator where
  "scenario_pages =
     NextPage (page_of [event_of body_m1_10_5, event_of ''not json'', event_of body_m1_20_0])
       Exhausted"

text \<open>The same page without the body that is not JSON.\<close>

definition valid_pages :: page_iterator where
  "valid_pages =
     NextPage (page_of [event_of body_m1_10_5, event_of body_m1_20_0]) Exhausted"

text \<open>A body that is valid JSON and not an object between the two valid ones.\<close>

definition list_body_pages :: page_iterator where
  "list_body_pages =
     NextPage (page_of [event_of body_m1_10_5, event_of ''[]'', event_of body_m1_20_0])
       Exhausted"

text \<open>The invocation with a plain string as content between the two valid ones.\<close>

definition string_content_pages :: page_iterator where
  "string_content_pages =
     NextPage
       (page_of [event_of body_m1_10_5, event_of body_string_content, event_of body_m1_20_0])
       Exhausted"

text \<open>A valid page, then a fault of the log source.\<close>

definition throttled_pages :: page_iterator where
  "throttled_pages =
     NextPage (page_of [event_of body_m1_10_5]) (Broken (OtherError ''ThrottlingException''))"

text \<open>A log group that does not exist.\<close>

definition missing_group :: page_iterator where
  "missing_group = Broken ResourceNotFoundException"

text \<open>A pandas that answers every call with a table, and one that fails at every call.\<close>

definition unit_pandas :: "(unit, unit) pandas" where
  "unit_pandas =
     \<lparr>to_datetime = (\<lambda>col. Inr (map (\<lambda>v. ()) col)),
      groupby_agg_round = (\<lambda>key spec digits df. Inr ())\<rparr>"


definition failing_pandas :: "(unit, unit) pandas" where
  "failing_pandas =
     \<lparr>to_datetime = (\<lambda>col. Inl (OtherError ''to_datetime'')),
      groupby_agg_round = (\<lambda>key spec digits df. Inl (OtherError ''groupby''))\<rparr>"

text \<open>
  A validation of an \<^verbatim>\<open>int\<close> field on sample values of other kinds: it converts
  \<^verbatim>\<open>True\<close> to 1, \<^verbatim>\<open>False\<close> to 0 and the string \<^verbatim>\<open>"7"\<close> to 7, and refuses the rest.
\<close>

definition sample_lax_int :: "json \<Rightarrow> int option" where
  "sample_lax_int v =
     (case v of
        JBool b \<Rightarrow> Some (if b then 1 else 0)
      | JStr s \<Rightarrow> (if s = ''7'' then Some 7 else None)
      | _ \<Rightarrow> None)"

definition usage_m1 :: "int \<Rightarrow> int \<Rightarrow> usage_record" where
  "usage_m1 n k =
     \<lparr>timestamp = JNull, region = JNull, modelId = JStr ''m1'', userId = JNull,
      inputTokens = JInt n, completionTokens = JInt k, totalTokens = JInt (n + k)\<rparr>"

definition empty_usage :: usage_record where
  "empty_usage =
     \<lparr>timestamp = JNull, region = JNull, modelId = JNull, userId = JNull,
      inputTokens = JNull, completionTokens = JNull, totalTokens = JInt 0\<rparr>"

section \<open>Lemmas on the loops and the sample inputs\<close>

lemma bind_exn_Inr_iff:
  "bind_exn m f = Inr y \<longleftrightarrow> (\<exists>x. m = Inr x \<and> f x = Inr y)"
  by (cases m) (simp_all add: bind_exn_def)

lemma bind_exn_simps:
  "bind_exn (Inl e) f = Inl e"
  "bind_exn (Inr x) f = f x"
  by (simp_all add: bind_exn_def)

lemma sample_event_10_5:
  "event_body sample_loads (event_of body_m1_10_5) = Inr (usage_m1 10 5)"
  by (simp add: event_body_def event_of_def sample_loads_def envelope_m1_def
      user_prompt_def filtered_event_def bind_exn_simps py_add_def usage_m1_def)

lemma sample_event_20_0:
  "event_body sample_loads (event_of body_m1_20_0) = Inr (usage_m1 20 0)"
  by (simp add: event_body_def event_of_def sample_loads_def body_m1_10_5_def
      body_m1_20_0_def body_string_content_def envelope_m1_def user_prompt_def filtered_event_def bind_exn_simps
      py_add_def usage_m1_def)

lemma sample_event_not_json:
  "event_body sample_loads (event_of ''not json'') = Inl JSONDecodeError"
  by (simp add: event_body_def event_of_def sample_loads_def body_m1_10_5_def
      body_m1_20_0_def body_string_content_def bind_exn_simps)

lemma sample_event_list_body:
  "event_body sample_loads (event_of ''[]'') = Inl AttributeError"
  by (simp add: event_body_def event_of_def sample_loads_def body_m1_10_5_def
      body_m1_20_0_def body_string_content_def bind_exn_simps user_prompt_def)

lemma sample_event_empty_object:
  "event_body sample_loads (event_of ''{}'') = Inr empty_usage"
  by (simp add: event_body_def event_of_def sample_loads_def body_m1_10_5_def
      body_m1_20_0_def body_string_content_def bind_exn_simps user_prompt_def filtered_event_def py_add_def
      empty_usage_def)

lemma sample_window:
  "time_window (sample_world it) 7 = Inr (1713312000000, 1713916800000)"
  by (simp add: time_window_def sample_world_def timedelta_def datetime_sub_def
      utc_epoch_ms_def bind_exn_simps)

lemma process_events_append:
  "process_events ld (xs @ ys) acc =
     (case process_events ld xs acc of Inl e \<Rightarrow> Inl e | Inr acc' \<Rightarrow> process_events ld ys acc')"
  by (induction xs arbitrary: acc) (auto split: sum.splits)

lemma process_events_skip:
  "skipped ld ev \<Longrightarrow> process_events ld (ev # evs) acc = process_events ld evs acc"
  by (auto simp: skipped_def)

lemma process_pages_pages_then:
  "process_pages ld (pages_then ps it) acc =
     (case process_pages ld (pages_then ps Exhausted) acc of
        Inl e \<Rightarrow> Inl e | Inr acc' \<Rightarrow> process_pages ld it acc')"
  by (induction ps arbitrary: acc) (auto split: sum.splits)

lemma process_events_subseq:
  "process_events ld evs acc = Inr logs \<Longrightarrow>
   \<exists>new. logs = acc @ new \<and> subseq (map Inr new) (map (event_body ld) evs)"
proof (induction evs arbitrary: acc)
  case Nil
  then show ?case by simp
next
  case (Cons ev evs)
  show ?case
  proof (cases "event_body ld ev")
    case (Inl e)
    with Cons.prems have "process_events ld evs acc = Inr logs"
      by (simp split: if_splits)
    from Cons.IH [OF this] obtain new
      where "logs = acc @ new" "subseq (map Inr new) (map (event_body ld) evs)" by blast
    then show ?thesis by (intro exI [of _ new]) auto
  next
    case (Inr r)
    with Cons.prems have "process_events ld evs (acc @ [r]) = Inr logs" by simp
    from Cons.IH [OF this] obtain new
      where new: "logs = (acc @ [r]) @ new" "subseq (map Inr new) (map (event_body ld) evs)"
      by blast
    show ?thesis
      using new Inr by (intro exI [of _ "r # new"]) simp
  qed
qed

lemma process_pages_subseq:
  "process_pages ld it acc = Inr logs \<Longrightarrow>
   \<exists>new. logs = acc @ new \<and> subseq (map Inr new) (map (event_body ld) (all_events it))"
proof (induction it arbitrary: acc)
  case Exhausted
  then show ?case by simp
next
  case (Broken e)
  then show ?case by simp
next
  case (NextPage p rest)
  from NextPage.prems obtain mid where
    mid: "process_events ld (page_events p) acc = Inr mid" "process_pages ld rest mid = Inr logs"
    by (auto split: sum.splits)
  from process_events_subseq [OF mid(1)] obtain n1 where
    n1: "mid = acc @ n1" "subseq (map Inr n1) (map (event_body ld) (page_events p))" by blast
  from NextPage.IH [OF mid(2)] obtain n2 where
    n2: "logs = mid @ n2" "subseq (map Inr n2) (map (event_body ld) (all_events rest))" by blast
  have "subseq (map Inr n1 @ map Inr n2)
          (map (event_body ld) (page_events p) @ map (event_body ld) (all_events rest))"
    using n1(2) n2(2) by (rule list_emb_append_mono)
  with n1(1) n2(1) show ?case by (intro exI [of _ "n1 @ n2"]) simp
qed

lemma process_events_raises_iff:
  "(\<exists>e. process_events ld evs acc = Inl e) \<longleftrightarrow> (\<exists>ev \<in> set evs. aborts ld ev)"
  by (induction evs arbitrary: acc) (auto simp: aborts_def split: sum.splits)

lemma process_pages_raises_iff:
  "(\<exists>e. process_pages ld it acc = Inl e) \<longleftrightarrow>
     breaks it \<or> (\<exists>ev \<in> set (all_events it). aborts ld ev)"
proof (induction it arbitrary: acc)
  case (NextPage p rest)
  show ?case
  proof (cases "process_events ld (page_events p) acc")
    case (Inl e)
    then have "\<exists>ev \<in> set (page_events p). aborts ld ev"
      using process_events_raises_iff [of ld "page_events p" acc] by blast
    with Inl show ?thesis by auto
  next
    case (Inr mid)
    then have "\<not> (\<exists>ev \<in> set (page_events p). aborts ld ev)"
      using process_events_raises_iff [of ld "page_events p" acc] by auto
    with Inr NextPage.IH [of mid] show ?thesis by auto
  qed
qed simp_all

lemma get_bedrock_logs_after_window:
  assumes "boto3_client w = None" and "time_window w d = Inr (s, e)"
  shows "get_bedrock_logs w d =
     (case process_pages (loads w) (paginate w (params s e)) [] of
        Inr logs \<Rightarrow> \<lparr>returned = Inr logs, printed = [], queried = [params s e]\<rparr>
      | Inl x \<Rightarrow>
          \<lparr>returned = Inr [],
           printed = [if x = ResourceNotFoundException then LogGroupNotFound
                      else ErrorRetrievingLogs x],
           queried = [params s e]\<rparr>)"
  using assms by (simp add: get_bedrock_logs_def Let_def split: sum.splits)

lemma dict_get_nested:
  assumes "dict_get msg outer (JObj []) = Inr d" and "dict_get d inner dflt = Inr x"
  shows "x = (case nested_field msg outer inner of None \<Rightarrow> dflt | Some v \<Rightarrow> v)"
proof (cases msg)
  case (JObj kvs)
  show ?thesis
  proof (cases "map_of kvs outer")
    case None
    with JObj assms show ?thesis by (auto simp: nested_field_def)
  next
    case (Some v)
    with JObj assms have "d = v" by simp
    with assms(2) obtain kvs' where "v = JObj kvs'" by (cases v) auto
    with JObj Some assms \<open>d = v\<close> show ?thesis
      by (auto simp: nested_field_def split: option.splits)
  qed
qed (use assms in auto)

lemma filtered_event_fields:
  assumes "filtered_event msg = Inr r"
  shows "inputTokens r = (case nested_field msg ''input'' ''inputTokenCount'' of None \<Rightarrow> JNull | Some v \<Rightarrow> v)"
    and "completionTokens r = (case nested_field msg ''output'' ''outputTokenCount'' of None \<Rightarrow> JNull | Some v \<Rightarrow> v)"
    and "py_add (or_zero (nested_field msg ''input'' ''inputTokenCount''))
           (or_zero (nested_field msg ''output'' ''outputTokenCount'')) = Inr (totalTokens r)"
  using assms unfolding filtered_event_def bind_exn_Inr_iff or_zero_def
  by (auto dest!: dict_get_nested)

lemma event_body_Inr:
  assumes "event_body ld ev = Inr r" and "message ev = Some s" and "ld s = Inr msg"
  shows "filtered_event msg = Inr r"
  using assms unfolding event_body_def bind_exn_Inr_iff
  by (auto split: option.splits)

section \<open>The token counts of an emitted record\<close>






text \<open>
  C5 as stated fails: the envelope \<^verbatim>\<open>{}\<close> lacks both counts, a record is emitted,
  and its \<open>inputTokens\<close> and \<open>completionTokens\<close> are \<^verbatim>\<open>None\<close>, not 0.
\<close>

theorem missing_count_is_null:
  "sample_loads ''{}'' = Inr (JObj [])
   \<and> nested_field (JObj []) ''input'' ''inputTokenCount'' = None
   \<and> nested_field (JObj []) ''output'' ''outputTokenCount'' = None
   \<and> event_body sample_loads (event_of ''{}'') = Inr empty_usage
   \<and> inputTokens empty_usage = JNull
   \<and> completionTokens empty_usage = JNull
   \<and> inputTokens empty_usage \<noteq> JInt 0
   \<and> completionTokens empty_usage \<noteq> JInt 0"
  by (simp add: sample_event_empty_object nested_field_def)
    (simp add: sample_loads_def body_m1_10_5_def body_m1_20_0_def body_string_content_def empty_usage_def)

text \<open>
  C5, amended. In every emitted record a count whose field is absent from the
  envelope is \<^verbatim>\<open>None\<close>; 0 stands in for it only as an operand of the total, so the
  total is 0 when both are absent.
\<close>

theorem missing_count_stays_null:
  assumes "event_body ld ev = Inr r" and "message ev = Some s" and "ld s = Inr msg"
  shows "(nested_field msg ''input'' ''inputTokenCount'' = None \<longrightarrow> inputTokens r = JNull)
       \<and> (nested_field msg ''output'' ''outputTokenCount'' = None \<longrightarrow> completionTokens r = JNull)
       \<and> (nested_field msg ''input'' ''inputTokenCount'' = None
            \<and> nested_field msg ''output'' ''outputTokenCount'' = None
          \<longrightarrow> totalTokens r = JInt 0)"
proof -
  have f: "filtered_event msg = Inr r"
    using assms by (rule event_body_Inr)
  show ?thesis
    using filtered_event_fields [OF f] by (auto simp: or_zero_def py_add_def)
qed

lemma sample_loads_empty_object: "sample_loads ''{}'' = Inr (JObj [])"
  by (simp add: sample_loads_def body_m1_10_5_def body_m1_20_0_def body_string_content_def)

text \<open>C5, amended, at the envelope \<^verbatim>\<open>{}\<close>.\<close>

theorem missing_count_stays_null_witness:
  "event_body sample_loads (event_of ''{}'') = Inr empty_usage
   \<and> nested_field (JObj []) ''input'' ''inputTokenCount'' = None
   \<and> nested_field (JObj []) ''output'' ''outputTokenCount'' = None
   \<and> inputTokens empty_usage = JNull
   \<and> completionTokens empty_usage = JNull
   \<and> totalTokens empty_usage = JInt 0"
proof -
  have m: "message (event_of ''{}'') = Some ''{}''"
    by (simp add: event_of_def)
  have n: "nested_field (JObj []) ''input'' ''inputTokenCount'' = None"
    "nested_field (JObj []) ''output'' ''outputTokenCount'' = None"
    by (simp_all add: nested_field_def)
  show ?thesis
    using missing_count_stays_null [OF sample_event_empty_object m sample_loads_empty_object]
      sample_event_empty_object n
    by simp
qed

section \<open>The sample log sources, fetched\<close>

lemma sample_client: "boto3_client (sample_world it) = None"
  by (simp add: sample_world_def)

lemma sample_paginate: "paginate (sample_world it) q = it"
  by (simp add: sample_world_def)

lemma sample_world_loads: "loads (sample_world it) = sample_loads"
  by (simp add: sample_world_def)

lemma sample_fetch:
  "get_bedrock_logs (sample_world it) 7 =
     (case process_pages sample_loads it [] of
        Inr logs \<Rightarrow>
          \<lparr>returned = Inr logs, printed = [],
           queried = [params 1713312000000 1713916800000]\<rparr>
      | Inl x \<Rightarrow>
          \<lparr>returned = Inr [],
           printed = [if x = ResourceNotFoundException then LogGroupNotFound
                      else ErrorRetrievingLogs x],
           queried = [params 1713312000000 1713916800000]\<rparr>)"
  using get_bedrock_logs_after_window [OF sample_client sample_window, of it]
  by (simp add: sample_paginate sample_world_loads)

lemma scenario_fetch:
  "get_bedrock_logs (sample_world scenario_pages) 7 =
     \<lparr>returned = Inr [usage_m1 10 5, usage_m1 20 0], printed = [],
      queried = [params 1713312000000 1713916800000]\<rparr>"
  by (simp add: sample_fetch scenario_pages_def page_events_def page_of_def
      sample_event_10_5 sample_event_20_0 sample_event_not_json)

lemma valid_fetch:
  "get_bedrock_logs (sample_world valid_pages) 7 =
     \<lparr>returned = Inr [usage_m1 10 5, usage_m1 20 0], printed = [],
      queried = [params 1713312000000 1713916800000]\<rparr>"
  by (simp add: sample_fetch valid_pages_def page_events_def page_of_def
      sample_event_10_5 sample_event_20_0)

lemma list_body_fetch:
  "get_bedrock_logs (sample_world list_body_pages) 7 =
     \<lparr>returned = Inr [], printed = [ErrorRetrievingLogs AttributeError],
      queried = [params 1713312000000 1713916800000]\<rparr>"
  by (simp add: sample_fetch list_body_pages_def page_events_def page_of_def
      sample_event_10_5 sample_event_list_body)

lemma throttled_fetch:
  "get_bedrock_logs (sample_world throttled_pages) 7 =
     \<lparr>returned = Inr [], printed = [ErrorRetrievingLogs (OtherError ''ThrottlingException'')],
      queried = [params 1713312000000 1713916800000]\<rparr>"
  by (simp add: sample_fetch throttled_pages_def page_events_def page_of_def
      sample_event_10_5)

lemma missing_group_fetch:
  "get_bedrock_logs (sample_world missing_group) 7 =
     \<lparr>returned = Inr [], printed = [LogGroupNotFound],
      queried = [params 1713312000000 1713916800000]\<rparr>"
  by (simp add: sample_fetch missing_group_def)

section \<open>Size and order of the extracted records\<close>

lemma get_bedrock_logs_returned_Inr:
  assumes "returned (get_bedrock_logs w d) = Inr logs"
  shows "\<exists>s e. boto3_client w = None \<and> time_window w d = Inr (s, e)"
  using assms
  by (auto simp: get_bedrock_logs_def split: option.splits sum.splits)

text \<open>
  C8. The list \<^verbatim>\<open>get_bedrock_logs\<close> returns has at most as many records as the
  pages held events, and the records stand in the order of their events (page
  order, then the order within a page): the returned records, each as the
  outcome \<open>Inr r\<close> of its event, are a subsequence of the outcomes of all events.
\<close>

theorem extraction_keeps_order:
  assumes "returned (get_bedrock_logs w d) = Inr logs"
  shows "\<exists>q. queried (get_bedrock_logs w d) = [q]
           \<and> length logs \<le> length (all_events (paginate w q))
           \<and> subseq (map Inr logs) (map (event_body (loads w)) (all_events (paginate w q)))"
proof -
  from get_bedrock_logs_returned_Inr [OF assms] obtain s e
    where c: "boto3_client w = None" and t: "time_window w d = Inr (s, e)" by blast
  let ?it = "paginate w (params s e)"
  note g = get_bedrock_logs_after_window [OF c t]
  have q: "queried (get_bedrock_logs w d) = [params s e]"
    by (simp add: g split: sum.splits)
  have sub: "subseq (map Inr logs) (map (event_body (loads w)) (all_events ?it))"
  proof (cases "process_pages (loads w) ?it []")
    case (Inl x)
    with assms g have "logs = []" by simp
    then show ?thesis by simp
  next
    case (Inr acc)
    with assms g have "logs = acc" by simp
    with process_pages_subseq [OF Inr] show ?thesis by simp
  qed
  then have "length (map Inr logs :: (exn + usage_record) list)
      \<le> length (map (event_body (loads w)) (all_events ?it))"
    by (rule list_emb_length)
  then have "length logs \<le> length (all_events ?it)" by simp
  with q sub show ?thesis by blast
qed

text \<open>C8 at the scenario: two records from three events, in their order.\<close>

theorem extraction_keeps_order_witness:
  "returned (get_bedrock_logs (sample_world scenario_pages) 7)
     = Inr [usage_m1 10 5, usage_m1 20 0]
   \<and> (\<exists>q. queried (get_bedrock_logs (sample_world scenario_pages) 7) = [q]
        \<and> length [usage_m1 10 5, usage_m1 20 0]
            \<le> length (all_events (paginate (sample_world scenario_pages) q))
        \<and> subseq (map Inr [usage_m1 10 5, usage_m1 20 0])
             (map (event_body (loads (sample_world scenario_pages)))
                (all_events (paginate (sample_world scenario_pages) q))))"
proof -
  have r: "returned (get_bedrock_logs (sample_world scenario_pages) 7)
     = Inr [usage_m1 10 5, usage_m1 20 0]"
    by (simp add: scenario_fetch)
  from extraction_keeps_order [OF r] r show ?thesis by blast
qed

section \<open>Malformed events\<close>

lemma process_pages_skip:
  assumes "skipped ld ev"
  shows "process_pages ld
           (pages_then ps (NextPage \<lparr>events = Some (pre @ ev # post)\<rparr> rest)) acc
         = process_pages ld
           (pages_then ps (NextPage \<lparr>events = Some (pre @ post)\<rparr> rest)) acc"
proof -
  have ev: "process_events ld (pre @ ev # post) a = process_events ld (pre @ post) a" for a
    by (simp add: process_events_append process_events_skip [OF assms]
        del: process_events.simps split: sum.splits)
  have "process_pages ld (NextPage \<lparr>events = Some (pre @ ev # post)\<rparr> rest) a
      = process_pages ld (NextPage \<lparr>events = Some (pre @ post)\<rparr> rest) a" for a
    by (simp add: page_events_def ev)
  then show ?thesis
    by (simp add: process_pages_pages_then [of ld ps "NextPage p r" for p r] split: sum.splits)
qed

lemma time_window_paginate:
  "time_window (w\<lparr>paginate := f\<rparr>) d = time_window w d"
  by (simp add: time_window_def)

text \<open>
  What the two inner handlers achieve. An event they skip (its body is not
  valid JSON, or it has no \<^verbatim>\<open>message\<close> key) changes nothing else: wherever it
  stands, on whichever page, the call returns, prints and queries what it does
  for the same pages without that event.
\<close>

theorem skipped_event_leaves_rest:
  assumes "skipped (loads w) ev"
  shows "get_bedrock_logs
           (w\<lparr>paginate := \<lambda>q. pages_then ps
                 (NextPage \<lparr>events = Some (pre @ ev # post)\<rparr> rest)\<rparr>) d
         = get_bedrock_logs
           (w\<lparr>paginate := \<lambda>q. pages_then ps
                 (NextPage \<lparr>events = Some (pre @ post)\<rparr> rest)\<rparr>) d"
proof (cases "boto3_client w")
  case (Some x)
  then show ?thesis by (simp add: get_bedrock_logs_def)
next
  case None
  show ?thesis
  proof (cases "time_window w d")
    case (Inl x)
    with None show ?thesis
      by (simp add: get_bedrock_logs_def time_window_paginate)
  next
    case (Inr se)
    with None show ?thesis
      by (cases se)
        (simp add: get_bedrock_logs_def time_window_paginate process_pages_skip [OF assms])
  qed
qed

text \<open>
  What they miss, at a body that is valid JSON and not an object: \<^verbatim>\<open>message.get\<close>
  raises \<^verbatim>\<open>AttributeError\<close> on the list \<^verbatim>\<open>[]\<close>; between the two valid events of
  the scenario it empties the whole result, while the two alone give their two
  records.
\<close>

theorem list_body_aborts_batch:
  "event_body sample_loads (event_of body_m1_10_5) = Inr (usage_m1 10 5)
   \<and> event_body sample_loads (event_of body_m1_20_0) = Inr (usage_m1 20 0)
   \<and> event_body sample_loads (event_of ''[]'') = Inl AttributeError
   \<and> returned (get_bedrock_logs (sample_world valid_pages) 7)
        = Inr [usage_m1 10 5, usage_m1 20 0]
   \<and> returned (get_bedrock_logs (sample_world list_body_pages) 7) = Inr []"
  by (simp add: sample_event_10_5 sample_event_20_0 sample_event_list_body valid_fetch
      list_body_fetch)

lemma sample_not_json_skipped:
  "skipped (loads (sample_world it)) (event_of ''not json'')"
  by (simp add: skipped_def sample_world_loads sample_event_not_json)

lemma sample_world_paginate_update:
  "(sample_world it) \<lparr>paginate := \<lambda>q. it'\<rparr> = sample_world it'"
  by (simp add: sample_world_def)

text \<open>The scenario: the body \<^verbatim>\<open>not json\<close> between two valid events is skipped.\<close>

theorem skipped_event_leaves_rest_witness:
  "skipped (loads (sample_world Exhausted)) (event_of ''not json'')
   \<and> get_bedrock_logs (sample_world scenario_pages) 7
       = get_bedrock_logs (sample_world valid_pages) 7
   \<and> returned (get_bedrock_logs (sample_world scenario_pages) 7)
       = Inr [usage_m1 10 5, usage_m1 20 0]"
proof -
  have "get_bedrock_logs (sample_world scenario_pages) 7
       = get_bedrock_logs (sample_world valid_pages) 7"
    using skipped_event_leaves_rest [where w = "sample_world Exhausted"
        and ev = "event_of ''not json''" and ps = "[]" and pre = "[event_of body_m1_10_5]"
        and post = "[event_of body_m1_20_0]" and rest = Exhausted and d = 7,
        OF sample_not_json_skipped]
    by (simp add: sample_world_paginate_update scenario_pages_def valid_pages_def page_of_def)
  then show ?thesis
    using sample_not_json_skipped [of Exhausted] by (simp add: valid_fetch)
qed

lemma sample_event_string_content:
  "event_body sample_loads (event_of body_string_content) = Inl AttributeError"
  by (simp add: event_body_def event_of_def sample_loads_def body_m1_10_5_def
      body_m1_20_0_def body_string_content_def envelope_string_content_def bind_exn_simps
      user_prompt_def add_message_text_def add_content_text_def)

lemma string_content_fetch:
  "get_bedrock_logs (sample_world string_content_pages) 7 =
     \<lparr>returned = Inr [], printed = [ErrorRetrievingLogs AttributeError],
      queried = [params 1713312000000 1713916800000]\<rparr>"
  by (simp add: sample_fetch string_content_pages_def page_events_def page_of_def
      sample_event_10_5 sample_event_string_content)

text \<open>
  C2. One malformed event must not keep the other events of its batch from
  being extracted. The code misses this for every fault other than the two its
  inner handlers name. A user message that gives its \<^verbatim>\<open>content\<close> as a plain
  string makes the loop of line 68 run over the characters of the string, and
  \<^verbatim>\<open>content.get\<close> raises \<^verbatim>\<open>AttributeError\<close> on the first; no inner handler catches
  it, the outer one does, and the records of the valid events around it are
  lost: the call returns \<open>[]\<close>, where the two valid events alone give their two
  records.
\<close>

theorem string_content_aborts_batch:
  "sample_loads body_string_content = Inr envelope_string_content
   \<and> event_body sample_loads (event_of body_m1_10_5) = Inr (usage_m1 10 5)
   \<and> event_body sample_loads (event_of body_m1_20_0) = Inr (usage_m1 20 0)
   \<and> event_body sample_loads (event_of body_string_content) = Inl AttributeError
   \<and> returned (get_bedrock_logs (sample_world valid_pages) 7)
        = Inr [usage_m1 10 5, usage_m1 20 0]
   \<and> returned (get_bedrock_logs (sample_world string_content_pages) 7) = Inr []
   \<and> printed (get_bedrock_logs (sample_world string_content_pages) 7)
        = [ErrorRetrievingLogs AttributeError]"
  by (simp add: sample_event_10_5 sample_event_20_0 sample_event_string_content valid_fetch
      string_content_fetch)
    (simp add: sample_loads_def body_m1_10_5_def body_m1_20_0_def body_string_content_def)

section \<open>Faults of the fetch\<close>

text \<open>
  C10. Once the window is computed, a fault other than the two skipped ones
  empties the result wherever it occurs: if the paginator raises after any
  number of pages, or any event of any page raises an exception that is neither
  \<^verbatim>\<open>JSONDecodeError\<close> nor \<^verbatim>\<open>KeyError\<close>, the call returns \<open>[]\<close>, whatever had been
  extracted before, and prints a diagnostic.
\<close>

theorem fault_discards_everything:
  assumes "boto3_client w = None" and "time_window w d = Inr (s, e)"
    and "breaks (paginate w (params s e))
         \<or> (\<exists>ev \<in> set (all_events (paginate w (params s e))). aborts (loads w) ev)"
  shows "returned (get_bedrock_logs w d) = Inr [] \<and> printed (get_bedrock_logs w d) \<noteq> []"
proof -
  from assms(3) obtain x
    where "process_pages (loads w) (paginate w (params s e)) [] = Inl x"
    using process_pages_raises_iff [of "loads w" "paginate w (params s e)" "[]"] by blast
  then show ?thesis
    by (simp add: get_bedrock_logs_after_window [OF assms(1,2)])
qed

text \<open>
  C10 at a source whose first page holds a valid event and whose second request
  is throttled: the record of that event is not returned.
\<close>

theorem fault_discards_everything_witness:
  "boto3_client (sample_world throttled_pages) = None
   \<and> time_window (sample_world throttled_pages) 7 = Inr (1713312000000, 1713916800000)
   \<and> breaks (paginate (sample_world throttled_pages) (params 1713312000000 1713916800000))
   \<and> all_events (paginate (sample_world throttled_pages) (params 1713312000000 1713916800000))
       = [event_of body_m1_10_5]
   \<and> event_body sample_loads (event_of body_m1_10_5) = Inr (usage_m1 10 5)
   \<and> returned (get_bedrock_logs (sample_world throttled_pages) 7) = Inr []
   \<and> printed (get_bedrock_logs (sample_world throttled_pages) 7) \<noteq> []"
proof -
  have b: "breaks (paginate (sample_world throttled_pages) (params 1713312000000 1713916800000))"
    by (simp add: sample_paginate throttled_pages_def)
  have a: "all_events (paginate (sample_world throttled_pages)
      (params 1713312000000 1713916800000)) = [event_of body_m1_10_5]"
    by (simp add: sample_paginate throttled_pages_def page_events_def page_of_def)
  from fault_discards_everything [OF sample_client sample_window disjI1, OF b]
  show ?thesis
    using b a sample_client sample_window sample_event_10_5 by simp
qed

text \<open>
  C3 as stated fails: the window is computed before the \<^verbatim>\<open>try\<close>. For
  \<open>days_back = 1000000000\<close> the call \<^verbatim>\<open>timedelta(days=days_back)\<close> raises
  \<^verbatim>\<open>OverflowError\<close>, and for \<open>days_back = 1000000\<close> the subtraction leaves the years
  1 to 9999 and raises it; the exception reaches the caller and nothing is
  printed.
\<close>

theorem huge_days_back_raises:
  "returned (get_bedrock_logs (sample_world Exhausted) 1000000000) = Inl OverflowError
   \<and> printed (get_bedrock_logs (sample_world Exhausted) 1000000000) = []
   \<and> returned (get_bedrock_logs (sample_world Exhausted) 1000000) = Inl OverflowError"
  by (simp add: get_bedrock_logs_def sample_client time_window_def timedelta_def
      datetime_sub_def sample_world_def bind_exn_simps)

text \<open>
  C3, amended. When the client is created and the window is computed, the call
  returns a list and lets no exception through; if the log group or stream does
  not exist it returns \<open>[]\<close> and prints the diagnostic of the first handler, and
  any other fault of the loop over the pages gives \<open>[]\<close> and the diagnostic of
  the second handler.
\<close>

theorem fetch_faults_become_empty:
  assumes "boto3_client w = None" and "time_window w d = Inr (s, e)"
  shows "(\<exists>logs. returned (get_bedrock_logs w d) = Inr logs)
       \<and> (paginate w (params s e) = Broken ResourceNotFoundException \<longrightarrow>
            returned (get_bedrock_logs w d) = Inr []
            \<and> printed (get_bedrock_logs w d) = [LogGroupNotFound])
       \<and> (\<forall>x. process_pages (loads w) (paginate w (params s e)) [] = Inl x \<longrightarrow>
            returned (get_bedrock_logs w d) = Inr []
            \<and> printed (get_bedrock_logs w d) =
                [if x = ResourceNotFoundException then LogGroupNotFound
                 else ErrorRetrievingLogs x])"
  by (auto simp: get_bedrock_logs_after_window [OF assms] split: sum.splits)

text \<open>C3, amended, at a log group that does not exist.\<close>

theorem fetch_faults_become_empty_witness:
  "boto3_client (sample_world missing_group) = None
   \<and> time_window (sample_world missing_group) 7 = Inr (1713312000000, 1713916800000)
   \<and> paginate (sample_world missing_group) (params 1713312000000 1713916800000)
       = Broken ResourceNotFoundException
   \<and> returned (get_bedrock_logs (sample_world missing_group) 7) = Inr []
   \<and> printed (get_bedrock_logs (sample_world missing_group) 7) = [LogGroupNotFound]"
proof -
  have p: "paginate (sample_world missing_group) (params 1713312000000 1713916800000)
       = Broken ResourceNotFoundException"
    by (simp add: sample_paginate missing_group_def)
  from fetch_faults_become_empty [OF sample_client sample_window, of missing_group] p
  show ?thesis
    using sample_client sample_window by simp
qed

section \<open>The duration of the window\<close>








section \<open>The tools\<close>

lemma get_bedrock_logs_df_empty:
  assumes "returned (get_bedrock_logs w d) = Inr []"
  shows "answer (get_bedrock_logs_df w pd d) = Inr \<lparr>rows = [], times = None\<rparr>"
  using assms by (simp add: get_bedrock_logs_df_def Let_def frame_empty_def)

lemma usage_stats_empty:
  assumes "returned (get_bedrock_logs w d) = Inr []"
  shows "answer (usage_stats key spec w pd d) = Inr EmptyDataFrame"
  by (simp add: usage_stats_def Let_def get_bedrock_logs_df_empty [OF assms] frame_empty_def)

text \<open>
  C6. Whenever \<^verbatim>\<open>get_bedrock_logs\<close> returns no record, each of the four tools
  answers with an empty frame and raises nothing: \<^verbatim>\<open>get_bedrock_logs_df\<close> with the
  frame of no rows, its timestamps not converted, the three statistics tools
  with \<^verbatim>\<open>pd.DataFrame()\<close>. This holds for every behaviour of pandas, so neither
  the conversion nor the grouping is consulted.
\<close>

theorem empty_fetch_gives_empty_result:
  assumes "returned (get_bedrock_logs w d) = Inr []" and "DaysParam lax arg = Inr d"
  shows "answer (call_tool w pd lax GetBedrockLogsDf arg)
           = Inr (Logs \<lparr>rows = [], times = None\<rparr>)
       \<and> answer (call_tool w pd lax GetModelUsageStats arg) = Inr (Stats EmptyDataFrame)
       \<and> answer (call_tool w pd lax GetUserUsageStats arg) = Inr (Stats EmptyDataFrame)
       \<and> answer (call_tool w pd lax GetDailyUsageStats arg) = Inr (Stats EmptyDataFrame)"
  using assms(2)
  by (simp add: call_tool_def tagged_def get_model_usage_stats_def get_user_usage_stats_def
      get_daily_usage_stats_def get_bedrock_logs_df_empty [OF assms(1)]
      usage_stats_empty [OF assms(1)])

lemma no_events_fetch:
  "get_bedrock_logs (sample_world Exhausted) 7 =
     \<lparr>returned = Inr [], printed = [],
      queried = [params 1713312000000 1713916800000]\<rparr>"
  by (simp add: sample_fetch)

text \<open>
  C6 at a log source with no page, \<^verbatim>\<open>days\<close> left out, and a pandas whose every
  call would fail.
\<close>

theorem empty_fetch_gives_empty_result_witness:
  "returned (get_bedrock_logs (sample_world Exhausted) 7) = Inr []
   \<and> DaysParam sample_lax_int DaysOmitted = Inr 7
   \<and> answer (call_tool (sample_world Exhausted) failing_pandas sample_lax_int
        GetBedrockLogsDf DaysOmitted)
       = Inr (Logs \<lparr>rows = [], times = None\<rparr>)
   \<and> answer (call_tool (sample_world Exhausted) failing_pandas sample_lax_int
        GetModelUsageStats DaysOmitted)
       = Inr (Stats EmptyDataFrame)
   \<and> answer (call_tool (sample_world Exhausted) failing_pandas sample_lax_int
        GetUserUsageStats DaysOmitted)
       = Inr (Stats EmptyDataFrame)
   \<and> answer (call_tool (sample_world Exhausted) failing_pandas sample_lax_int
        GetDailyUsageStats DaysOmitted)
       = Inr (Stats EmptyDataFrame)"
proof -
  have r: "returned (get_bedrock_logs (sample_world Exhausted) 7) = Inr []"
    by (simp add: no_events_fetch)
  have v: "DaysParam sample_lax_int DaysOmitted = Inr 7"
    by (simp add: DaysParam_def)
  from empty_fetch_gives_empty_result [OF r v, of failing_pandas] r v
  show ?thesis by simp
qed

lemma call_tool_accepted:
  assumes "DaysParam lax arg = Inr d"
  shows "fetches (call_tool w pd lax which arg) = [get_bedrock_logs w d]"
  using assms
  by (cases which)
    (simp_all add: call_tool_def tagged_def get_model_usage_stats_def
      get_user_usage_stats_def get_daily_usage_stats_def usage_stats_def
      get_bedrock_logs_df_def Let_def)

lemma call_tool_rejected:
  assumes "DaysParam lax arg = Inl e"
  shows "answer (call_tool w pd lax which arg) = Inl e"
    and "fetches (call_tool w pd lax which arg) = []"
  using assms by (simp_all add: call_tool_def)

text \<open>
  C1, amended. Every integer, negative or not, passes the validation as it is,
  and \<^verbatim>\<open>days\<close> left out is 7; a value of another kind passes as the integer the
  library's validation of an \<^verbatim>\<open>int\<close> field converts it to, and fails with a
  parameter error when the library refuses it. Whatever the argument, a call
  whose validation fails is answered with that error before any fetch, and a
  call whose validation gives \<open>d\<close> makes one call of \<^verbatim>\<open>get_bedrock_logs\<close>, with
  \<open>d\<close> as it is.
\<close>

theorem days_validation:
  "DaysParam lax DaysOmitted = Inr 7
   \<and> DaysParam lax (DaysInt n) = Inr n
   \<and> (\<forall>v k. lax v = Some k \<longrightarrow> DaysParam lax (DaysOther v) = Inr k)
   \<and> (\<forall>v. lax v = None \<longrightarrow> DaysParam lax (DaysOther v) = Inl ValidationError)
   \<and> (\<forall>arg e. DaysParam lax arg = Inl e \<longrightarrow>
         answer (call_tool w pd lax which arg) = Inl e
         \<and> fetches (call_tool w pd lax which arg) = [])
   \<and> (\<forall>arg d. DaysParam lax arg = Inr d \<longrightarrow>
         fetches (call_tool w pd lax which arg) = [get_bedrock_logs w d])"
  by (simp add: DaysParam_def call_tool_accepted call_tool_rejected)

lemma negative_fetch:
  "get_bedrock_logs (sample_world Exhausted) (- 1) =
     \<lparr>returned = Inr [], printed = [],
      queried = [params 1714003200000 1713916800000]\<rparr>"
proof -
  have t: "time_window (sample_world Exhausted) (- 1)
      = Inr (1714003200000, 1713916800000)"
    by (simp add: time_window_def sample_world_def timedelta_def datetime_sub_def
      utc_epoch_ms_def bind_exn_simps)
  show ?thesis
    using get_bedrock_logs_after_window [OF sample_client t]
    by (simp add: sample_paginate sample_world_loads)
qed

text \<open>
  C1 as stated fails: \<^verbatim>\<open>days = -1\<close> is not rejected. Each of the four tools
  answers without a parameter error (here with an empty frame, the log source
  holding nothing), after one query of the log source whose start time is a day
  after its end time.
\<close>

theorem negative_days_is_fetched:
  "answer (call_tool (sample_world Exhausted) unit_pandas sample_lax_int
      GetBedrockLogsDf (DaysInt (- 1)))
     = Inr (Logs \<lparr>rows = [], times = None\<rparr>)
   \<and> answer (call_tool (sample_world Exhausted) unit_pandas sample_lax_int
        GetModelUsageStats (DaysInt (- 1)))
     = Inr (Stats EmptyDataFrame)
   \<and> answer (call_tool (sample_world Exhausted) unit_pandas sample_lax_int
        GetUserUsageStats (DaysInt (- 1)))
     = Inr (Stats EmptyDataFrame)
   \<and> answer (call_tool (sample_world Exhausted) unit_pandas sample_lax_int
        GetDailyUsageStats (DaysInt (- 1)))
     = Inr (Stats EmptyDataFrame)
   \<and> map queried
        (fetches (call_tool (sample_world Exhausted) unit_pandas sample_lax_int
           GetModelUsageStats (DaysInt (- 1))))
     = [[params 1714003200000 1713916800000]]"
  by (simp add: call_tool_def DaysParam_def tagged_def get_model_usage_stats_def
      get_user_usage_stats_def get_daily_usage_stats_def
      usage_stats_def get_bedrock_logs_df_def Let_def negative_fetch frame_empty_def)

text \<open>
  C1, amended, at \<^verbatim>\<open>days = -1\<close>, at the string \<^verbatim>\<open>"7"\<close>, which the sample validation
  converts, and at \<^verbatim>\<open>None\<close>, which it refuses.
\<close>

theorem days_validation_witness:
  "DaysParam sample_lax_int (DaysInt (- 1)) = Inr (- 1)
   \<and> fetches (call_tool (sample_world Exhausted) unit_pandas sample_lax_int
        GetBedrockLogsDf (DaysInt (- 1)))
       = [get_bedrock_logs (sample_world Exhausted) (- 1)]
   \<and> sample_lax_int (JStr ''7'') = Some 7
   \<and> fetches (call_tool (sample_world Exhausted) unit_pandas sample_lax_int
        GetBedrockLogsDf (DaysOther (JStr ''7'')))
       = [get_bedrock_logs (sample_world Exhausted) 7]
   \<and> sample_lax_int JNull = None
   \<and> answer (call_tool (sample_world Exhausted) unit_pandas sample_lax_int
        GetBedrockLogsDf (DaysOther JNull))
       = Inl ValidationError
   \<and> fetches (call_tool (sample_world Exhausted) unit_pandas sample_lax_int
        GetBedrockLogsDf (DaysOther JNull))
       = []"
proof -
  note v = days_validation [of sample_lax_int "- 1" "sample_world Exhausted" unit_pandas
      GetBedrockLogsDf]
  have s7: "sample_lax_int (JStr ''7'') = Some 7" and sn: "sample_lax_int JNull = None"
    by (simp_all add: sample_lax_int_def)
  from v have i: "DaysParam sample_lax_int (DaysInt (- 1)) = Inr (- 1)"
    by blast
  from v s7 have a: "DaysParam sample_lax_int (DaysOther (JStr ''7'')) = Inr 7"
    by blast
  from v sn have r: "DaysParam sample_lax_int (DaysOther JNull) = Inl ValidationError"
    by blast
  from v i have "fetches (call_tool (sample_world Exhausted) unit_pandas sample_lax_int
        GetBedrockLogsDf (DaysInt (- 1)))
       = [get_bedrock_logs (sample_world Exhausted) (- 1)]"
    by blast
  moreover from v a have "fetches (call_tool (sample_world Exhausted) unit_pandas
        sample_lax_int GetBedrockLogsDf (DaysOther (JStr ''7'')))
       = [get_bedrock_logs (sample_world Exhausted) 7]"
    by blast
  moreover from v r have "answer (call_tool (sample_world Exhausted) unit_pandas
        sample_lax_int GetBedrockLogsDf (DaysOther JNull)) = Inl ValidationError
      \<and> fetches (call_tool (sample_world Exhausted) unit_pandas sample_lax_int
        GetBedrockLogsDf (DaysOther JNull)) = []"
    by blast
  ultimately show ?thesis
    using i s7 sn by simp
qed

end
